theory Spec2Isabelle
  imports Main
begin

section \<open>CourseNest backend: the handlers of server/server.js\<close>

text \<open>
  The service is an Express application whose handlers read and write four tables of a
  relational store through \<^verbatim>\<open>pool.query\<close>. Each handler is embedded as a function from
  the environment of the request, the tables and the request to an outcome: the response
  sent, the tables afterwards and the lines written to the console.

  A field of the body of a register or login request is any JSON value, or absent.
  User, course and video ids are natural numbers, the \<^verbatim>\<open>courseId\<close> of a payment
  body and the \<^verbatim>\<open>:id\<close> of a video path are such numbers, and a text column is
  compared with \<open>=\<close> as the store compares it. The leading pictographs of the console
  labels are left out of the strings.
\<close>

subsection \<open>Rows and tables\<close>

record user =
  u_id :: nat
  u_name :: string
  u_email :: string
  u_password :: string

record payment_row =
  user_id :: nat
  course_id :: nat
  payment_method :: "string option"

record course =
  c_id :: nat
  c_title :: string

record video =
  v_id :: nat
  v_course_id :: nat
  v_title :: string

text \<open>
  Modelled from the spec: the schema of the store is not part of the repository. The
  spec gives a User an id that is unique and generated; \<open>next_user_id\<close> is the value
  the store hands to the next inserted user row.
\<close>

record db =
  users :: "user list"
  payments :: "payment_row list"
  courses :: "course list"
  videos :: "video list"
  next_user_id :: nat

subsection \<open>Requests, responses and the console\<close>

text \<open>
  A JSON value as \<^verbatim>\<open>express.json()\<close> hands it to the handler: a string, an integer
  that JavaScript prints in decimal, a boolean, null, or any other value (another
  number, an array, an object), given by the text the database driver sends for it.
\<close>

datatype jsval = JStr string | JNum int | JBool bool | JNull | JOther string

text \<open>The JSON body of \<^verbatim>\<open>POST /register\<close> and \<^verbatim>\<open>POST /login\<close>; \<open>None\<close> is a field that is not there.\<close>

record body =
  name :: "jsval option"
  email :: "jsval option"
  password :: "jsval option"

record payment_body =
  courseId :: nat
  paymentMethod :: "string option"

text \<open>The identity that the token middleware leaves in \<^verbatim>\<open>req.user\<close>.\<close>

record identity =
  i_id :: nat
  i_email :: string

text \<open>
  A session token, symbolically: the payload that \<^verbatim>\<open>jwt.sign\<close> signs, the two
  timestamps it adds (seconds) and the secret the signature was made with.
\<close>

record token =
  t_id :: nat
  t_email :: string
  t_iat :: nat
  t_exp :: nat
  t_key :: string

datatype payload =
    Msg string
  | MsgError string string
  | MsgUser string user
  | MsgTokenUser string token user
  | MsgCourse string nat
  | PurchasedCourses "course list"
  | VideoRows "video list"
  | CourseRows "course list"

record response =
  status :: nat
  json :: payload

datatype logline =
    LogBody string "(string \<times> jsval) list"
  | LogError string string
  | LogText string
  | LogPaymentRecorded nat nat

record outcome =
  reply :: response
  store :: db
  console :: "logline list"

text \<open>
  What one request finds around it: the signing secret of the process environment, the
  clock in seconds, the salt that bcrypt draws for this request, and whether the store
  answers: \<open>store_fault e k = Some m\<close> says that the \<open>k\<close>-th \<^verbatim>\<open>pool.query\<close> of the
  handler (counted from 0) rejects with an error of message \<open>m\<close>.
\<close>

record env =
  JWT_SECRET :: "string option"
  now :: nat
  salt :: string
  store_fault :: "nat \<Rightarrow> string option"

text \<open>
  The bcrypt library is not part of the repository. On a password that is a string its
  two functions are parameters: \<open>bc_hash bc p rounds s\<close> is \<^verbatim>\<open>bcrypt.hash(p, rounds)\<close>
  with drawn salt \<open>s\<close>, and \<open>bc_compare bc p h\<close> is \<^verbatim>\<open>bcrypt.compare(p, h)\<close>. The other
  two fields are the messages of the errors with which the library rejects data that is
  not a string.
\<close>

record bcrypt =
  bc_hash :: "string \<Rightarrow> nat \<Rightarrow> string \<Rightarrow> string"
  bc_compare :: "string \<Rightarrow> string \<Rightarrow> bool"
  bc_hash_error :: string
  bc_compare_error :: string

text \<open>
  The two calls as the handlers make them, on the field as received: the library checks
  its argument first and rejects (\<open>Inl\<close>) whatever is not a string.
\<close>

definition bcrypt_hash :: "bcrypt \<Rightarrow> jsval option \<Rightarrow> nat \<Rightarrow> string \<Rightarrow> string + string" where
  "bcrypt_hash bc data rounds s =
     (case data of
        Some (JStr p) \<Rightarrow> Inr (bc_hash bc p rounds s)
      | _ \<Rightarrow> Inl (bc_hash_error bc))"

definition bcrypt_compare :: "bcrypt \<Rightarrow> jsval option \<Rightarrow> string \<Rightarrow> string + bool" where
  "bcrypt_compare bc data h =
     (case data of
        Some (JStr p) \<Rightarrow> Inr (bc_compare bc p h)
      | _ \<Rightarrow> Inl (bc_compare_error bc))"

subsection \<open>JavaScript truthiness\<close>

text \<open>
  \<^verbatim>\<open>!x\<close> for a field of the body: a field that is not there, null, the empty string,
  the number 0 and false are falsy; every other value is truthy.
\<close>

fun falsy :: "jsval option \<Rightarrow> bool" where
  "falsy None = True"
| "falsy (Some (JStr s)) = (s = [])"
| "falsy (Some (JNum i)) = (i = 0)"
| "falsy (Some (JBool t)) = (\<not> t)"
| "falsy (Some JNull) = True"
| "falsy (Some (JOther t)) = False"

text \<open>\<^verbatim>\<open>!process.env.JWT_SECRET\<close>: the variable is not set, or set to the empty string.\<close>

fun unset :: "string option \<Rightarrow> bool" where
  "unset None = True"
| "unset (Some s) = (s = [])"

fun secret_of :: "string option \<Rightarrow> string" where
  "secret_of None = []"
| "secret_of (Some s) = s"

subsection \<open>Query parameters\<close>

text \<open>
  The database driver is not part of the repository. It sends a parameter as text: a
  string as it is, a number in decimal, a boolean as \<^verbatim>\<open>true\<close> or \<^verbatim>\<open>false\<close>. The
  handlers pass a field on only after they found it truthy, so the text given here for
  null and for a field that is not there is never read.
\<close>

fun decimal :: "nat \<Rightarrow> string" where
  "decimal n =
     (if n < 10 then [''0123456789'' ! n]
      else decimal (n div 10) @ [''0123456789'' ! (n mod 10)])"

declare decimal.simps [simp del]

fun sql_text :: "jsval \<Rightarrow> string" where
  "sql_text (JStr s) = s"
| "sql_text (JNum i) = (if i < 0 then ''-'' @ decimal (nat (- i)) else decimal (nat i))"
| "sql_text (JBool t) = (if t then ''true'' else ''false'')"
| "sql_text JNull = []"
| "sql_text (JOther t) = t"

fun param :: "jsval option \<Rightarrow> string" where
  "param None = []"
| "param (Some v) = sql_text v"

subsection \<open>The console\<close>

text \<open>The fields of a body as the console prints the object: the fields that are there.\<close>

fun field :: "string \<Rightarrow> jsval option \<Rightarrow> (string \<times> jsval) list" where
  "field k None = []"
| "field k (Some v) = [(k, v)]"

definition body_fields :: "body \<Rightarrow> (string \<times> jsval) list" where
  "body_fields b = field ''name'' (name b) @ field ''email'' (email b) @ field ''password'' (password b)"

subsection \<open>The queries\<close>

text \<open>
  Each function is one \<^verbatim>\<open>pool.query\<close> call of server.js, on the tables; \<open>k\<close> is
  its position in the handler and \<open>Inl m\<close> the rejected promise that the handler's
  \<^verbatim>\<open>catch\<close> receives. The rows of the join come course by course; SQL fixes no order.
\<close>

definition select_courses :: "env \<Rightarrow> nat \<Rightarrow> db \<Rightarrow> string + course list" where
  "select_courses e k d = (case store_fault e k of Some m \<Rightarrow> Inl m | None \<Rightarrow> Inr (courses d))"

definition select_users_by_email :: "env \<Rightarrow> nat \<Rightarrow> db \<Rightarrow> string \<Rightarrow> string + user list" where
  "select_users_by_email e k d em =
     (case store_fault e k of Some m \<Rightarrow> Inl m
      | None \<Rightarrow> Inr (filter (\<lambda>u. u_email u = em) (users d)))"

definition insert_user :: "env \<Rightarrow> nat \<Rightarrow> db \<Rightarrow> string \<Rightarrow> string \<Rightarrow> string \<Rightarrow> string + (user \<times> db)" where
  "insert_user e k d n em h =
     (case store_fault e k of Some m \<Rightarrow> Inl m
      | None \<Rightarrow>
          (let row = \<lparr>u_id = next_user_id d, u_name = n, u_email = em, u_password = h\<rparr>
           in Inr (row, d\<lparr>users := users d @ [row], next_user_id := Suc (next_user_id d)\<rparr>)))"

definition select_payments :: "env \<Rightarrow> nat \<Rightarrow> db \<Rightarrow> nat \<Rightarrow> nat \<Rightarrow> string + payment_row list" where
  "select_payments e k d uid cid =
     (case store_fault e k of Some m \<Rightarrow> Inl m
      | None \<Rightarrow> Inr (filter (\<lambda>p. user_id p = uid \<and> course_id p = cid) (payments d)))"

definition insert_payment :: "env \<Rightarrow> nat \<Rightarrow> db \<Rightarrow> nat \<Rightarrow> nat \<Rightarrow> string option \<Rightarrow> string + db" where
  "insert_payment e k d uid cid pm =
     (case store_fault e k of Some m \<Rightarrow> Inl m
      | None \<Rightarrow>
          Inr (d\<lparr>payments := payments d @ [\<lparr>user_id = uid, course_id = cid, payment_method = pm\<rparr>]\<rparr>))"

definition select_purchased_courses :: "env \<Rightarrow> nat \<Rightarrow> db \<Rightarrow> nat \<Rightarrow> string + course list" where
  "select_purchased_courses e k d uid =
     (case store_fault e k of Some m \<Rightarrow> Inl m
      | None \<Rightarrow>
          Inr (concat (map (\<lambda>c. map (\<lambda>p. c)
                 (filter (\<lambda>p. course_id p = c_id c \<and> user_id p = uid) (payments d))) (courses d))))"

definition select_videos :: "env \<Rightarrow> nat \<Rightarrow> db \<Rightarrow> nat \<Rightarrow> string + video list" where
  "select_videos e k d cid =
     (case store_fault e k of Some m \<Rightarrow> Inl m
      | None \<Rightarrow> Inr (filter (\<lambda>v. v_course_id v = cid) (videos d)))"

subsection \<open>Signing a token\<close>

text \<open>
  \<^verbatim>\<open>jwt.sign({id, email}, secret, {expiresIn: "1h"})\<close>: the jsonwebtoken library is not
  part of the repository. Modelled from the spec: the token encodes the user id, the
  email, the time of issue and an expiry one hour (3600 seconds) later, and is signed
  with the secret.
\<close>

definition jwt_sign :: "nat \<Rightarrow> string \<Rightarrow> string \<Rightarrow> nat \<Rightarrow> token" where
  "jwt_sign uid em secret t =
     \<lparr>t_id = uid, t_email = em, t_iat = t, t_exp = t + 3600, t_key = secret\<rparr>"

subsection \<open>The handlers\<close>

definition send :: "nat \<Rightarrow> payload \<Rightarrow> db \<Rightarrow> logline list \<Rightarrow> outcome" where
  "send st j d lg = \<lparr>reply = \<lparr>status = st, json = j\<rparr>, store = d, console = lg\<rparr>"

text \<open>\<^verbatim>\<open>GET /courses\<close>.\<close>

definition list_courses :: "env \<Rightarrow> db \<Rightarrow> outcome" where
  "list_courses e d =
     (case select_courses e 0 d of
        Inl m \<Rightarrow> send 500 (Msg ''Error fetching courses'') d [LogError ''Error fetching courses:'' m]
      | Inr rows \<Rightarrow> send 200 (CourseRows rows) d [])"

text \<open>
  \<^verbatim>\<open>POST /register\<close>. The hashing and both queries stand inside the handler's
  \<^verbatim>\<open>try\<close>: a rejection of any of them is answered 500 by its \<^verbatim>\<open>catch\<close>.
\<close>

definition register :: "bcrypt \<Rightarrow> env \<Rightarrow> db \<Rightarrow> body \<Rightarrow> outcome" where
  "register bc e d b =
     (let lg = [LogBody ''Register request:'' (body_fields b)] in
      if falsy (name b) \<or> falsy (email b) \<or> falsy (password b)
      then send 400 (Msg ''All fields are required'') d lg
      else
        (case select_users_by_email e 0 d (param (email b)) of
           Inl m \<Rightarrow> send 500 (MsgError ''Database error'' m) d (lg @ [LogError ''DB Error:'' m])
         | Inr existingUser \<Rightarrow>
             if length existingUser > 0
             then send 400 (Msg ''User already exists'') d lg
             else
               (case bcrypt_hash bc (password b) 10 (salt e) of
                  Inl m \<Rightarrow> send 500 (MsgError ''Database error'' m) d (lg @ [LogError ''DB Error:'' m])
                | Inr hashedPassword \<Rightarrow>
                    (case insert_user e 1 d (param (name b)) (param (email b)) hashedPassword of
                       Inl m \<Rightarrow> send 500 (MsgError ''Database error'' m) d (lg @ [LogError ''DB Error:'' m])
                     | Inr (row, d') \<Rightarrow> send 201 (MsgUser ''User registered successfully'' row) d' lg))))"

text \<open>
  \<^verbatim>\<open>POST /login\<close>. \<^verbatim>\<open>result.rows[0]\<close> is the first row of the answer, if any. The
  query and the comparison stand inside the handler's \<^verbatim>\<open>try\<close>: a rejection of either
  is answered 500 by its \<^verbatim>\<open>catch\<close>.
\<close>

definition login :: "bcrypt \<Rightarrow> env \<Rightarrow> db \<Rightarrow> body \<Rightarrow> outcome" where
  "login bc e d b =
     (let lg = [LogBody ''Login request:'' (body_fields b)] in
      if falsy (email b) \<or> falsy (password b)
      then send 400 (Msg ''Both fields are required'') d lg
      else
        (case select_users_by_email e 0 d (param (email b)) of
           Inl m \<Rightarrow> send 500 (MsgError ''Server error'' m) d (lg @ [LogError ''Login Error:'' m])
         | Inr rows \<Rightarrow>
             (case rows of
                [] \<Rightarrow> send 401 (Msg ''Invalid email or password'') d lg
              | usr # _ \<Rightarrow>
                  (case bcrypt_compare bc (password b) (u_password usr) of
                     Inl m \<Rightarrow> send 500 (MsgError ''Server error'' m) d (lg @ [LogError ''Login Error:'' m])
                   | Inr isMatch \<Rightarrow>
                       if isMatch
                       then
                         (if unset (JWT_SECRET e)
                          then send 500 (Msg ''Server misconfiguration'') d
                                 (lg @ [LogText ''JWT_SECRET not found in environment variables!''])
                          else send 200
                                 (MsgTokenUser ''Login successful''
                                    (jwt_sign (u_id usr) (u_email usr) (secret_of (JWT_SECRET e)) (now e)) usr)
                                 d lg)
                       else send 401 (Msg ''Invalid email or password'') d lg))))"

text \<open>\<^verbatim>\<open>!req.user?.id\<close>: no identity, or an identity whose id is 0.\<close>

fun no_user_id :: "identity option \<Rightarrow> bool" where
  "no_user_id None = True"
| "no_user_id (Some u) = (i_id u = 0)"

fun user_id_of :: "identity option \<Rightarrow> nat" where
  "user_id_of None = 0"
| "user_id_of (Some u) = i_id u"

text \<open>\<^verbatim>\<open>POST /payment\<close>, behind the token middleware.\<close>

definition payment :: "env \<Rightarrow> db \<Rightarrow> identity option \<Rightarrow> payment_body \<Rightarrow> outcome" where
  "payment e d req_user b =
     (if no_user_id req_user then send 403 (Msg ''Unauthorized'') d []
      else
        (let userId = user_id_of req_user in
         case select_payments e 0 d userId (courseId b) of
           Inl m \<Rightarrow> send 500 (Msg ''Server error'') d [LogError ''Payment error:'' m]
         | Inr existing \<Rightarrow>
             if length existing > 0
             then send 409 (Msg ''You have already purchased this course.'') d []
             else
               (case insert_payment e 1 d userId (courseId b) (paymentMethod b) of
                  Inl m \<Rightarrow> send 500 (Msg ''Server error'') d [LogError ''Payment error:'' m]
                | Inr d' \<Rightarrow>
                    send 200 (MsgCourse ''Payment successful'' (courseId b)) d'
                      [LogPaymentRecorded userId (courseId b)])))"

text \<open>
  \<^verbatim>\<open>GET /my-courses\<close>, behind the token middleware. The handler reads
  \<^verbatim>\<open>req.user.id\<close> outside its \<^verbatim>\<open>try\<close>: without an identity that read throws and the
  handler sends nothing (\<open>Inl\<close>).
\<close>

definition my_courses :: "env \<Rightarrow> db \<Rightarrow> identity option \<Rightarrow> string + outcome" where
  "my_courses e d req_user =
     (case req_user of
        None \<Rightarrow> Inl ''TypeError''
      | Some u \<Rightarrow>
          (case select_purchased_courses e 0 d (i_id u) of
             Inl m \<Rightarrow> Inr (send 500 (Msg ''Server error'') d
                             [LogError ''Error fetching purchased courses:'' m])
           | Inr rows \<Rightarrow> Inr (send 200 (PurchasedCourses rows) d [])))"

text \<open>\<^verbatim>\<open>GET /course/:id/videos\<close>, behind the token middleware.\<close>

definition course_videos :: "env \<Rightarrow> db \<Rightarrow> identity option \<Rightarrow> nat \<Rightarrow> outcome" where
  "course_videos e d req_user cid =
     (if no_user_id req_user then send 403 (Msg ''Unauthorized'') d []
      else
        (case select_payments e 0 d (user_id_of req_user) cid of
           Inl m \<Rightarrow> send 500 (Msg ''Server error'') d [LogError ''Failed to fetch videos:'' m]
         | Inr purchased \<Rightarrow>
             if length purchased = 0
             then send 403 (Msg ''Access denied. You have not purchased this course.'') d []
             else
               (case select_videos e 1 d cid of
                  Inl m \<Rightarrow> send 500 (Msg ''Server error'') d [LogError ''Failed to fetch videos:'' m]
                | Inr rows \<Rightarrow> send 200 (VideoRows rows) d [])))"

subsection \<open>The token middleware\<close>

datatype auth_error = MissingTokenError | InvalidTokenError | ExpiredTokenError

text \<open>
  Modelled from the spec: server.js imports \<^verbatim>\<open>verifyToken\<close> from
  \<^verbatim>\<open>./middleware/auth.js\<close>, which is not among the sources. By the spec it takes the
  bearer token of the \<^verbatim>\<open>Authorization\<close> header and fails \<open>MissingTokenError\<close> if
  there is none; verifies signature and expiry against the process-wide signing secret,
  failing \<open>InvalidTokenError\<close> on a signature mismatch and \<open>ExpiredTokenError\<close> on
  expiry; and on success hands the decoded identity to the handler. The spec leaves the
  instant of expiry itself open; here the token counts as expired from that instant on.
\<close>

definition authenticate :: "env \<Rightarrow> token option \<Rightarrow> auth_error + identity" where
  "authenticate e bearer =
     (case bearer of
        None \<Rightarrow> Inl MissingTokenError
      | Some t \<Rightarrow>
          if JWT_SECRET e = Some (t_key t)
          then (if t_exp t \<le> now e then Inl ExpiredTokenError
                else Inr \<lparr>i_id = t_id t, i_email = t_email t\<rparr>)
          else Inl InvalidTokenError)"

subsection \<open>Concrete inputs\<close>

text \<open>
  A stand-in for the bcrypt library, to run the handlers on concrete inputs. It is
  no secure hash: it only keeps the library's contract that a hash of a password
  compares equal to that password.
\<close>

definition toy_bcrypt :: bcrypt where
  "toy_bcrypt =
     \<lparr>bc_hash = (\<lambda>p r s. s @ ''$'' @ rev p),
      bc_compare = (\<lambda>p h. take (Suc (length p)) (rev h) = p @ ''$''),
      bc_hash_error = ''data must be a string or Buffer and salt must either be a salt string or a number of rounds'',
      bc_compare_error = ''data and hash must be strings''\<rparr>"

definition env0 :: env where
  "env0 = \<lparr>JWT_SECRET = Some ''s3cret'', now = 1000, salt = ''na'', store_fault = (\<lambda>k. None)\<rparr>"

definition db0 :: db where
  "db0 = \<lparr>users = [], payments = [],
          courses = [\<lparr>c_id = 5, c_title = ''Logic''\<rparr>, \<lparr>c_id = 6, c_title = ''Sets''\<rparr>],
          videos = [\<lparr>v_id = 1, v_course_id = 5, v_title = ''Intro''\<rparr>,
                    \<lparr>v_id = 2, v_course_id = 6, v_title = ''Unions''\<rparr>,
                    \<lparr>v_id = 3, v_course_id = 5, v_title = ''Proofs''\<rparr>],
          next_user_id = 1\<rparr>"

definition ann :: body where
  "ann = \<lparr>name = Some (JStr ''Ann''), email = Some (JStr ''ann@x.com''), password = Some (JStr ''pw123'')\<rparr>"

text \<open>The same requests with the number 12345 for a password.\<close>

definition ann_12345 :: body where
  "ann_12345 = \<lparr>name = Some (JStr ''Ann''), email = Some (JStr ''ann@x.com''), password = Some (JNum 12345)\<rparr>"

definition bob_12345 :: body where
  "bob_12345 = \<lparr>name = None, email = Some (JStr ''bob@x.com''), password = Some (JNum 12345)\<rparr>"

definition ann_identity :: identity where
  "ann_identity = \<lparr>i_id = 1, i_email = ''ann@x.com''\<rparr>"


definition env_at :: "nat \<Rightarrow> env" where
  "env_at t = env0\<lparr>now := t\<rparr>"

definition ann_row :: user where
  "ann_row = \<lparr>u_id = 1, u_name = ''Ann'', u_email = ''ann@x.com'', u_password = ''na$321wp''\<rparr>"

definition ann_token :: token where
  "ann_token = \<lparr>t_id = 1, t_email = ''ann@x.com'', t_iat = 1000, t_exp = 4600, t_key = ''s3cret''\<rparr>"

text \<open>The tables after Ann registered, and after two users bought one course each.\<close>

definition db_ann :: db where
  "db_ann = db0\<lparr>users := [ann_row], next_user_id := 2\<rparr>"

definition db1 :: db where
  "db1 = db0\<lparr>payments := [\<lparr>user_id = 1, course_id = 5, payment_method = Some ''card''\<rparr>,
                           \<lparr>user_id = 2, course_id = 6, payment_method = None\<rparr>]\<rparr>"

definition no_name :: body where
  "no_name = \<lparr>name = None, email = Some (JStr ''ann@x.com''), password = Some (JStr ''pw123'')\<rparr>"


definition bob :: body where
  "bob = \<lparr>name = None, email = Some (JStr ''bob@x.com''), password = Some (JStr ''pw123'')\<rparr>"

subsection \<open>A store that answers\<close>

text \<open>No query of the request is rejected.\<close>

definition store_answers :: "env \<Rightarrow> bool" where
  "store_answers e = (\<forall>k. store_fault e k = None)"

section \<open>Properties\<close>

subsection \<open>The queries when the store answers\<close>

lemma store_answersD: "store_answers e \<Longrightarrow> store_fault e k = None"
  by (simp add: store_answers_def)

lemma store_answers_env0: "store_answers env0"
  by (simp add: store_answers_def env0_def)

lemma select_users_answers:
  "store_fault e k = None \<Longrightarrow>
   select_users_by_email e k d em = Inr (filter (\<lambda>u. u_email u = em) (users d))"
  by (simp add: select_users_by_email_def)

lemma select_payments_answers:
  "store_fault e k = None \<Longrightarrow>
   select_payments e k d uid cid = Inr (filter (\<lambda>p. user_id p = uid \<and> course_id p = cid) (payments d))"
  by (simp add: select_payments_def)

lemma select_videos_answers:
  "store_fault e k = None \<Longrightarrow> select_videos e k d cid = Inr (filter (\<lambda>v. v_course_id v = cid) (videos d))"
  by (simp add: select_videos_def)

lemma insert_payment_answers:
  "store_fault e k = None \<Longrightarrow>
   insert_payment e k d uid cid pm =
     Inr (d\<lparr>payments := payments d @ [\<lparr>user_id = uid, course_id = cid, payment_method = pm\<rparr>]\<rparr>)"
  by (simp add: insert_payment_def)

subsection \<open>Fields\<close>

lemma unset_secret_of: "\<not> unset x \<Longrightarrow> x = Some (secret_of x)"
  by (cases x) simp_all

text \<open>A user row with the text of the email field exists exactly when the lookup finds a row.\<close>

lemma no_row_for_email:
  "(\<exists>u \<in> set (users d). u_email u = em) \<longleftrightarrow> filter (\<lambda>u. u_email u = em) (users d) \<noteq> []"
  by (auto simp: filter_empty_conv)

subsection \<open>Recording a payment\<close>

text \<open>
  The payment handler answers 200 exactly when the request carries an identity with an
  id, both of its queries are answered and the store holds no payment row for the pair.
\<close>

lemma payment_200_iff:
  "status (reply (payment e d ru b)) = 200 \<longleftrightarrow>
     \<not> no_user_id ru \<and> store_fault e 0 = None \<and> store_fault e 1 = None \<and>
     filter (\<lambda>p. user_id p = user_id_of ru \<and> course_id p = courseId b) (payments d) = []"
  by (auto simp: payment_def send_def select_payments_def insert_payment_def Let_def
           split: option.splits)

lemma payment_fresh:
  assumes "\<not> no_user_id ru" "store_fault e 0 = None" "store_fault e 1 = None"
    "filter (\<lambda>p. user_id p = user_id_of ru \<and> course_id p = courseId b) (payments d) = []"
  shows "payment e d ru b =
     send 200 (MsgCourse ''Payment successful'' (courseId b))
       (d\<lparr>payments := payments d @
            [\<lparr>user_id = user_id_of ru, course_id = courseId b, payment_method = paymentMethod b\<rparr>]\<rparr>)
       [LogPaymentRecorded (user_id_of ru) (courseId b)]"
  using assms by (simp add: payment_def select_payments_answers insert_payment_answers Let_def)

lemma payment_repeat:
  assumes "\<not> no_user_id ru" "store_fault e 0 = None"
    "filter (\<lambda>p. user_id p = user_id_of ru \<and> course_id p = courseId b) (payments d) \<noteq> []"
  shows "payment e d ru b = send 409 (Msg ''You have already purchased this course.'') d []"
  using assms by (simp add: payment_def select_payments_answers Let_def)

subsection \<open>Video access is gated by the payment row\<close>

text \<open>
  Claim C1. Let the request carry an identity with an id, and let the store answer.
  If the store holds no payment row for that identity and the course, the video
  handler answers 403 with the access-denied message (the spec's ForbiddenError). If a
  payment request of that identity for that course was answered 200, the video handler
  on the store the payment left answers 200 with all video rows whose course id is that
  of the course; the payment leaves the video table as it was.
\<close>

theorem course_videos_gated:
  assumes ok: "store_answers e" and uid: "i_id u \<noteq> 0"
  shows "(\<not> (\<exists>p \<in> set (payments d). user_id p = i_id u \<and> course_id p = cid) \<longrightarrow>
            reply (course_videos e d (Some u) cid) =
              \<lparr>status = 403, json = Msg ''Access denied. You have not purchased this course.''\<rparr>)
       \<and> (status (reply (payment e0 d (Some u) \<lparr>courseId = cid, paymentMethod = pm\<rparr>)) = 200 \<longrightarrow>
            reply (course_videos e (store (payment e0 d (Some u) \<lparr>courseId = cid, paymentMethod = pm\<rparr>))
                     (Some u) cid) =
              \<lparr>status = 200, json = VideoRows (filter (\<lambda>v. v_course_id v = cid) (videos d))\<rparr>)"
proof (intro conjI impI)
  note q = store_answersD [OF ok]
  assume none: "\<not> (\<exists>p \<in> set (payments d). user_id p = i_id u \<and> course_id p = cid)"
  then have "filter (\<lambda>p. user_id p = i_id u \<and> course_id p = cid) (payments d) = []"
    by (simp add: filter_empty_conv)
  with uid show "reply (course_videos e d (Some u) cid) =
      \<lparr>status = 403, json = Msg ''Access denied. You have not purchased this course.''\<rparr>"
    by (simp add: course_videos_def select_payments_answers [OF q] send_def)
next
  note q = store_answersD [OF ok]
  let ?b = "\<lparr>courseId = cid, paymentMethod = pm\<rparr>"
  assume paid: "status (reply (payment e0 d (Some u) ?b)) = 200"
  then have e0: "store_fault e0 0 = None" "store_fault e0 1 = None"
    and fresh: "filter (\<lambda>p. user_id p = i_id u \<and> course_id p = cid) (payments d) = []"
    by (simp_all add: payment_200_iff)
  from uid e0 fresh have st: "store (payment e0 d (Some u) ?b) =
      d\<lparr>payments := payments d @ [\<lparr>user_id = i_id u, course_id = cid, payment_method = pm\<rparr>]\<rparr>"
    by (simp add: payment_fresh send_def)
  show "reply (course_videos e (store (payment e0 d (Some u) ?b)) (Some u) cid) =
      \<lparr>status = 200, json = VideoRows (filter (\<lambda>v. v_course_id v = cid) (videos d))\<rparr>"
    unfolding st using uid
    by (simp add: course_videos_def select_payments_answers [OF q] select_videos_answers [OF q] send_def)
qed

theorem course_videos_gated_witness:
  "reply (course_videos env0 db0 (Some ann_identity) 5) =
     \<lparr>status = 403, json = Msg ''Access denied. You have not purchased this course.''\<rparr>
   \<and> status (reply (payment env0 db0 (Some ann_identity) \<lparr>courseId = 5, paymentMethod = Some ''card''\<rparr>)) = 200
   \<and> reply (course_videos env0
        (store (payment env0 db0 (Some ann_identity) \<lparr>courseId = 5, paymentMethod = Some ''card''\<rparr>))
        (Some ann_identity) 5) =
     \<lparr>status = 200, json = VideoRows [\<lparr>v_id = 1, v_course_id = 5, v_title = ''Intro''\<rparr>,
                                      \<lparr>v_id = 3, v_course_id = 5, v_title = ''Proofs''\<rparr>]\<rparr>"
proof -
  have uid: "i_id ann_identity \<noteq> 0"
    by (simp add: ann_identity_def)
  have none: "\<not> (\<exists>p \<in> set (payments db0). user_id p = i_id ann_identity \<and> course_id p = 5)"
    by (simp add: db0_def)
  have paid: "status (reply (payment env0 db0 (Some ann_identity)
      \<lparr>courseId = 5, paymentMethod = Some ''card''\<rparr>)) = 200"
    by (simp add: payment_200_iff env0_def ann_identity_def db0_def)
  have vs: "filter (\<lambda>v. v_course_id v = 5) (videos db0) =
      [\<lparr>v_id = 1, v_course_id = 5, v_title = ''Intro''\<rparr>, \<lparr>v_id = 3, v_course_id = 5, v_title = ''Proofs''\<rparr>]"
    by (simp add: db0_def)
  from course_videos_gated [OF store_answers_env0 uid, of db0 5 env0 "Some ''card''"] none paid vs
  show ?thesis by simp
qed

subsection \<open>A pair is paid for once\<close>

text \<open>
  Claim C3. Let the request carry an identity with an id, let the store answer both
  requests, and let the store hold no payment row for the identity and the course. Then
  the first payment request is answered 200, a second one for the same pair (whatever
  its payment method) is answered 409 and leaves the store as the first left it, and
  the store then holds exactly one row for the pair: the row of the first request, with
  its payment method.
\<close>

theorem payment_twice:
  assumes ok1: "store_answers e1" and ok2: "store_answers e2"
    and uid: "i_id u \<noteq> 0"
    and fresh: "\<not> (\<exists>p \<in> set (payments d). user_id p = i_id u \<and> course_id p = cid)"
  shows "reply (payment e1 d (Some u) \<lparr>courseId = cid, paymentMethod = pm1\<rparr>) =
           \<lparr>status = 200, json = MsgCourse ''Payment successful'' cid\<rparr>
       \<and> reply (payment e2 (store (payment e1 d (Some u) \<lparr>courseId = cid, paymentMethod = pm1\<rparr>))
                  (Some u) \<lparr>courseId = cid, paymentMethod = pm2\<rparr>) =
           \<lparr>status = 409, json = Msg ''You have already purchased this course.''\<rparr>
       \<and> store (payment e2 (store (payment e1 d (Some u) \<lparr>courseId = cid, paymentMethod = pm1\<rparr>))
                  (Some u) \<lparr>courseId = cid, paymentMethod = pm2\<rparr>) =
           store (payment e1 d (Some u) \<lparr>courseId = cid, paymentMethod = pm1\<rparr>)
       \<and> filter (\<lambda>p. user_id p = i_id u \<and> course_id p = cid)
            (payments (store (payment e2
               (store (payment e1 d (Some u) \<lparr>courseId = cid, paymentMethod = pm1\<rparr>))
               (Some u) \<lparr>courseId = cid, paymentMethod = pm2\<rparr>))) =
           [\<lparr>user_id = i_id u, course_id = cid, payment_method = pm1\<rparr>]"
proof -
  let ?b1 = "\<lparr>courseId = cid, paymentMethod = pm1\<rparr>"
  let ?b2 = "\<lparr>courseId = cid, paymentMethod = pm2\<rparr>"
  let ?row = "\<lparr>user_id = i_id u, course_id = cid, payment_method = pm1\<rparr>"
  let ?d1 = "d\<lparr>payments := payments d @ [?row]\<rparr>"
  note q1 = store_answersD [OF ok1] and q2 = store_answersD [OF ok2]
  from fresh have none: "filter (\<lambda>p. user_id p = i_id u \<and> course_id p = cid) (payments d) = []"
    by (simp add: filter_empty_conv)
  with uid have first: "payment e1 d (Some u) ?b1 =
      send 200 (MsgCourse ''Payment successful'' cid) ?d1 [LogPaymentRecorded (i_id u) cid]"
    using payment_fresh [of "Some u" e1 ?b1 d] q1 by simp
  have one: "filter (\<lambda>p. user_id p = i_id u \<and> course_id p = cid) (payments ?d1) = [?row]"
    using none by simp
  with uid have second: "payment e2 ?d1 (Some u) ?b2 =
      send 409 (Msg ''You have already purchased this course.'') ?d1 []"
    using payment_repeat [of "Some u" e2 ?b2 ?d1] q2 by simp
  have st: "store (payment e1 d (Some u) ?b1) = ?d1"
    by (simp add: first send_def)
  show ?thesis
    unfolding st second
    using one by (simp add: first send_def)
qed

theorem payment_twice_witness:
  "reply (payment env0 db0 (Some ann_identity) \<lparr>courseId = 5, paymentMethod = Some ''card''\<rparr>) =
     \<lparr>status = 200, json = MsgCourse ''Payment successful'' 5\<rparr>
   \<and> reply (payment env0
        (store (payment env0 db0 (Some ann_identity) \<lparr>courseId = 5, paymentMethod = Some ''card''\<rparr>))
        (Some ann_identity) \<lparr>courseId = 5, paymentMethod = Some ''upi''\<rparr>) =
     \<lparr>status = 409, json = Msg ''You have already purchased this course.''\<rparr>
   \<and> payments (store (payment env0
        (store (payment env0 db0 (Some ann_identity) \<lparr>courseId = 5, paymentMethod = Some ''card''\<rparr>))
        (Some ann_identity) \<lparr>courseId = 5, paymentMethod = Some ''upi''\<rparr>)) =
     [\<lparr>user_id = 1, course_id = 5, payment_method = Some ''card''\<rparr>]"
proof -
  have uid: "i_id ann_identity \<noteq> 0"
    by (simp add: ann_identity_def)
  have fresh: "\<not> (\<exists>p \<in> set (payments db0). user_id p = i_id ann_identity \<and> course_id p = 5)"
    by (simp add: db0_def)
  have first: "payments (store (payment env0 db0 (Some ann_identity)
      \<lparr>courseId = 5, paymentMethod = Some ''card''\<rparr>)) =
      [\<lparr>user_id = 1, course_id = 5, payment_method = Some ''card''\<rparr>]"
    by (simp add: payment_def select_payments_def insert_payment_def send_def
        env0_def db0_def ann_identity_def)
  from payment_twice [OF store_answers_env0 store_answers_env0 uid fresh,
      of "Some ''card''" "Some ''upi''"] first
  show ?thesis by simp
qed

subsection \<open>The purchased courses\<close>

lemma set_select_purchased:
  "set (concat (map (\<lambda>c. map (\<lambda>p. c)
          (filter (\<lambda>p. course_id p = c_id c \<and> user_id p = uid) ps)) cs)) =
   {c \<in> set cs. \<exists>p \<in> set ps. user_id p = uid \<and> course_id p = c_id c}"
  by auto

text \<open>
  Claim C7. For a request that carries an identity, while the store answers, the
  my-courses handler answers 200 with rows whose set is exactly the set of courses for
  which the store holds a payment row of that identity: every purchased course is
  among them and no other course is.
\<close>

theorem my_courses_exact:
  assumes ok: "store_answers e"
  shows "\<exists>rows. my_courses e d (Some u) = Inr (send 200 (PurchasedCourses rows) d [])
           \<and> set rows = {c \<in> set (courses d).
                \<exists>p \<in> set (payments d). user_id p = i_id u \<and> course_id p = c_id c}"
proof -
  let ?rows = "concat (map (\<lambda>c. map (\<lambda>p. c)
      (filter (\<lambda>p. course_id p = c_id c \<and> user_id p = i_id u) (payments d))) (courses d))"
  from store_answersD [OF ok]
  have "my_courses e d (Some u) = Inr (send 200 (PurchasedCourses ?rows) d [])"
    by (simp add: my_courses_def select_purchased_courses_def)
  moreover have "set ?rows = {c \<in> set (courses d).
      \<exists>p \<in> set (payments d). user_id p = i_id u \<and> course_id p = c_id c}"
    by (rule set_select_purchased)
  ultimately show ?thesis by blast
qed

theorem my_courses_exact_witness:
  "\<exists>rows. my_courses env0 db1 (Some ann_identity) = Inr (send 200 (PurchasedCourses rows) db1 [])
     \<and> set rows = {\<lparr>c_id = 5, c_title = ''Logic''\<rparr>}"
proof -
  have "{c \<in> set (courses db1).
      \<exists>p \<in> set (payments db1). user_id p = i_id ann_identity \<and> course_id p = c_id c} =
      {\<lparr>c_id = 5, c_title = ''Logic''\<rparr>}"
    by (auto simp: db1_def db0_def ann_identity_def)
  with my_courses_exact [OF store_answers_env0, of db1 ann_identity] show ?thesis by simp
qed

subsection \<open>Registration and login, branch by branch\<close>

lemma register_created:
  assumes "\<not> falsy (name b)" "\<not> falsy (email b)"
    and "password b = Some (JStr p)" "p \<noteq> []"
    and "store_fault e 0 = None" "store_fault e 1 = None"
    and "filter (\<lambda>u. u_email u = param (email b)) (users d) = []"
  shows "register bc e d b =
     send 201
       (MsgUser ''User registered successfully''
          \<lparr>u_id = next_user_id d, u_name = param (name b), u_email = param (email b),
            u_password = bc_hash bc p 10 (salt e)\<rparr>)
       (d\<lparr>users := users d @
            [\<lparr>u_id = next_user_id d, u_name = param (name b), u_email = param (email b),
              u_password = bc_hash bc p 10 (salt e)\<rparr>],
          next_user_id := Suc (next_user_id d)\<rparr>)
       [LogBody ''Register request:'' (body_fields b)]"
  using assms
  by (simp add: register_def select_users_answers insert_user_def bcrypt_hash_def Let_def)

text \<open>
  A password that is present and not a string passes the check of the fields and is
  rejected by the hashing: the handler's catch answers 500 and nothing is stored.
\<close>

lemma register_rejected_hash:
  assumes "\<not> falsy (name b)" "\<not> falsy (email b)" "\<not> falsy (password b)"
    and "\<forall>p. password b \<noteq> Some (JStr p)"
    and "store_fault e 0 = None"
    and "filter (\<lambda>u. u_email u = param (email b)) (users d) = []"
  shows "register bc e d b =
     send 500 (MsgError ''Database error'' (bc_hash_error bc)) d
       ([LogBody ''Register request:'' (body_fields b)] @ [LogError ''DB Error:'' (bc_hash_error bc)])"
  using assms
  by (auto simp: register_def select_users_answers bcrypt_hash_def Let_def
           split: option.splits jsval.splits)

text \<open>Registration changes the store only on the branch that answers 201.\<close>

lemma register_store_cases:
  "store (register bc e d b) = d \<or> status (reply (register bc e d b)) = 201"
  by (auto simp: register_def select_users_by_email_def insert_user_def send_def Let_def
           split: option.splits sum.splits)

lemma register_201_D:
  assumes "status (reply (register bc e d b)) = 201"
  shows "\<not> falsy (email b) \<and> filter (\<lambda>u. u_email u = param (email b)) (users d) = []"
  using assms
  by (auto simp: register_def select_users_by_email_def insert_user_def send_def Let_def
           split: option.splits sum.splits if_splits)

lemma login_checked:
  assumes "\<not> falsy (email b)" "\<not> falsy (password b)" "store_fault e 0 = None"
  shows "login bc e d b =
     (case filter (\<lambda>u. u_email u = param (email b)) (users d) of
        [] \<Rightarrow> send 401 (Msg ''Invalid email or password'') d [LogBody ''Login request:'' (body_fields b)]
      | usr # _ \<Rightarrow>
          (case bcrypt_compare bc (password b) (u_password usr) of
             Inl m \<Rightarrow> send 500 (MsgError ''Server error'' m) d
                        ([LogBody ''Login request:'' (body_fields b)] @ [LogError ''Login Error:'' m])
           | Inr isMatch \<Rightarrow>
               if isMatch
               then (if unset (JWT_SECRET e)
                     then send 500 (Msg ''Server misconfiguration'') d
                            ([LogBody ''Login request:'' (body_fields b)] @
                             [LogText ''JWT_SECRET not found in environment variables!''])
                     else send 200
                            (MsgTokenUser ''Login successful''
                               (jwt_sign (u_id usr) (u_email usr) (secret_of (JWT_SECRET e)) (now e)) usr)
                            d [LogBody ''Login request:'' (body_fields b)])
               else send 401 (Msg ''Invalid email or password'') d
                      [LogBody ''Login request:'' (body_fields b)]))"
  using assms by (simp add: login_def select_users_answers Let_def)

lemma login_200_D:
  assumes "status (reply (login bc e d b)) = 200"
  shows "\<not> falsy (email b) \<and> \<not> falsy (password b) \<and> store_fault e 0 = None \<and> \<not> unset (JWT_SECRET e)
       \<and> (\<exists>usr rest. filter (\<lambda>u. u_email u = param (email b)) (users d) = usr # rest
            \<and> bcrypt_compare bc (password b) (u_password usr) = Inr True)"
  using assms
  by (auto simp: login_def select_users_by_email_def send_def Let_def
           split: option.splits list.splits sum.splits if_splits)

lemma login_token_D:
  assumes "json (reply (login bc e d b)) = MsgTokenUser m tok usr"
  shows "\<not> unset (JWT_SECRET e) \<and> tok = jwt_sign (u_id usr) (u_email usr) (secret_of (JWT_SECRET e)) (now e)"
  using assms
  by (auto simp: login_def select_users_by_email_def send_def Let_def
           split: option.splits list.splits sum.splits if_splits)

subsection \<open>Register, then log in\<close>

text \<open>
  Claim C2, as stated, fails for a password that is present but not a string: with
  name, email and the number 12345 for a password, and no user row at all, the hashing
  rejects the password and registration is answered 500; nothing is stored.
\<close>

theorem register_numeric_password:
  "\<not> falsy (name ann_12345) \<and> \<not> falsy (email ann_12345) \<and> \<not> falsy (password ann_12345)
   \<and> users db0 = []
   \<and> reply (register toy_bcrypt env0 db0 ann_12345) =
       \<lparr>status = 500, json = MsgError ''Database error'' (bc_hash_error toy_bcrypt)\<rparr>
   \<and> store (register toy_bcrypt env0 db0 ann_12345) = db0"
  by (simp add: register_def select_users_by_email_def bcrypt_hash_def send_def
      env0_def db0_def ann_12345_def Let_def)

text \<open>
  Claim C2, amended: the password is a string. Let name and email be present and the
  password a non-empty string, and let no user row have the email. In a process whose
  store answers and whose signing secret is set, and with a bcrypt whose hash of the
  password compares equal to the password, registration is answered 201, and a login
  with the same email and password on the store it left is answered 200 with a token
  and the user row.
\<close>

theorem register_then_login:
  assumes present: "\<not> falsy (name b)" "\<not> falsy (email b)"
    and pw: "password b = Some (JStr p)" "p \<noteq> []"
    and fresh: "\<not> (\<exists>u \<in> set (users d). u_email u = param (email b))"
    and ok1: "store_answers e1" and ok2: "store_answers e2"
    and secret: "\<not> unset (JWT_SECRET e2)"
    and verifies: "bc_compare bc p (bc_hash bc p 10 (salt e1))"
  shows "status (reply (register bc e1 d b)) = 201
       \<and> reply (login bc e2 (store (register bc e1 d b)) \<lparr>name = n, email = email b, password = password b\<rparr>) =
           \<lparr>status = 200,
             json = MsgTokenUser ''Login successful''
               (jwt_sign (next_user_id d) (param (email b)) (secret_of (JWT_SECRET e2)) (now e2))
               \<lparr>u_id = next_user_id d, u_name = param (name b), u_email = param (email b),
                 u_password = bc_hash bc p 10 (salt e1)\<rparr>\<rparr>"
proof -
  let ?row = "\<lparr>u_id = next_user_id d, u_name = param (name b), u_email = param (email b),
      u_password = bc_hash bc p 10 (salt e1)\<rparr>"
  let ?d' = "d\<lparr>users := users d @ [?row], next_user_id := Suc (next_user_id d)\<rparr>"
  let ?b' = "\<lparr>name = n, email = email b, password = password b\<rparr>"
  from fresh have none: "filter (\<lambda>u. u_email u = param (email b)) (users d) = []"
    by (simp add: no_row_for_email)
  from present pw store_answersD [OF ok1] store_answersD [OF ok1] none
  have reg: "register bc e1 d b =
      send 201 (MsgUser ''User registered successfully'' ?row) ?d' [LogBody ''Register request:'' (body_fields b)]"
    by (rule register_created)
  have found: "filter (\<lambda>u. u_email u = param (email ?b')) (users ?d') = [?row]"
    using none by simp
  have accepted: "bcrypt_compare bc (password ?b') (u_password ?row) = Inr True"
    using pw(1) verifies by (simp add: bcrypt_compare_def)
  have "\<not> falsy (email ?b')" "\<not> falsy (password ?b')"
    using present pw by simp_all
  from login_checked [OF this store_answersD [OF ok2], of bc ?d'] found accepted secret
  have "reply (login bc e2 ?d' ?b') =
      \<lparr>status = 200,
        json = MsgTokenUser ''Login successful''
          (jwt_sign (next_user_id d) (param (email b)) (secret_of (JWT_SECRET e2)) (now e2)) ?row\<rparr>"
    by (simp add: send_def)
  then show ?thesis
    by (simp add: reg send_def)
qed

theorem register_then_login_witness:
  "status (reply (register toy_bcrypt env0 db0 ann)) = 201
   \<and> reply (login toy_bcrypt env0 (store (register toy_bcrypt env0 db0 ann))
        \<lparr>name = None, email = email ann, password = password ann\<rparr>) =
      \<lparr>status = 200,
        json = MsgTokenUser ''Login successful''
          \<lparr>t_id = 1, t_email = ''ann@x.com'', t_iat = 1000, t_exp = 4600, t_key = ''s3cret''\<rparr>
          \<lparr>u_id = 1, u_name = ''Ann'', u_email = ''ann@x.com'', u_password = ''na$321wp''\<rparr>\<rparr>"
proof -
  have present: "\<not> falsy (name ann)" "\<not> falsy (email ann)"
    and pw: "password ann = Some (JStr ''pw123'')" "''pw123'' \<noteq> []"
    by (simp_all add: ann_def)
  have fresh: "\<not> (\<exists>u \<in> set (users db0). u_email u = param (email ann))"
    by (simp add: db0_def)
  have secret: "\<not> unset (JWT_SECRET env0)"
    by (simp add: env0_def)
  have verifies: "bc_compare toy_bcrypt ''pw123'' (bc_hash toy_bcrypt ''pw123'' 10 (salt env0))"
    by (simp add: toy_bcrypt_def env0_def)
  from register_then_login [OF present pw fresh store_answers_env0 store_answers_env0 secret verifies,
      of None]
  show ?thesis
    by (simp add: env0_def db0_def ann_def toy_bcrypt_def jwt_sign_def)
qed

subsection \<open>Registering an email twice\<close>

text \<open>
  Claim C4, as stated, fails for a request that lacks a field: Ann's email is in the
  store, and a registration with that email and no name is answered with the
  validation message, not with the duplicate-user message.
\<close>

theorem register_duplicate_missing_name:
  "map u_email (users db_ann) = [''ann@x.com'']
   \<and> email no_name = Some (JStr ''ann@x.com'')
   \<and> reply (register toy_bcrypt env0 db_ann no_name) =
       \<lparr>status = 400, json = Msg ''All fields are required''\<rparr>"
  by (simp add: register_def send_def no_name_def db_ann_def ann_row_def)

text \<open>
  Claim C4, amended. Let the request have an email field and let a user row have its
  text. Then registration leaves the store as it was and is not answered 201. If name,
  email or password is missing, the answer is 400 with the validation message. If all
  three are present, the answer is 400 with the duplicate-user message when the lookup
  is answered, and 500 with the message of the error when the lookup is rejected.
\<close>

theorem register_duplicate:
  assumes has: "email b = Some v"
    and dup: "\<exists>u \<in> set (users d). u_email u = sql_text v"
  shows "store (register bc e d b) = d
       \<and> status (reply (register bc e d b)) \<noteq> 201
       \<and> (falsy (name b) \<or> falsy (email b) \<or> falsy (password b) \<longrightarrow>
            reply (register bc e d b) = \<lparr>status = 400, json = Msg ''All fields are required''\<rparr>)
       \<and> (\<not> falsy (name b) \<and> \<not> falsy (email b) \<and> \<not> falsy (password b) \<and> store_fault e 0 = None \<longrightarrow>
            reply (register bc e d b) = \<lparr>status = 400, json = Msg ''User already exists''\<rparr>)
       \<and> (\<forall>m. \<not> falsy (name b) \<and> \<not> falsy (email b) \<and> \<not> falsy (password b) \<and> store_fault e 0 = Some m \<longrightarrow>
            reply (register bc e d b) = \<lparr>status = 500, json = MsgError ''Database error'' m\<rparr>)"
proof -
  from has dup have found: "filter (\<lambda>u. u_email u = param (email b)) (users d) \<noteq> []"
    by (simp add: no_row_for_email)
  have not_created: "status (reply (register bc e d b)) \<noteq> 201"
  proof
    assume "status (reply (register bc e d b)) = 201"
    then have "filter (\<lambda>u. u_email u = param (email b)) (users d) = []"
      by (simp add: register_201_D)
    with found show False by simp
  qed
  with register_store_cases [of bc e d b] have unchanged: "store (register bc e d b) = d"
    by blast
  have invalid: "reply (register bc e d b) = \<lparr>status = 400, json = Msg ''All fields are required''\<rparr>"
    if "falsy (name b) \<or> falsy (email b) \<or> falsy (password b)"
    using that by (simp add: register_def send_def)
  have duplicate: "reply (register bc e d b) = \<lparr>status = 400, json = Msg ''User already exists''\<rparr>"
    if "\<not> falsy (name b)" "\<not> falsy (email b)" "\<not> falsy (password b)" "store_fault e 0 = None"
    using that found by (simp add: register_def select_users_answers send_def)
  have rejected: "reply (register bc e d b) = \<lparr>status = 500, json = MsgError ''Database error'' m\<rparr>"
    if "\<not> falsy (name b)" "\<not> falsy (email b)" "\<not> falsy (password b)" "store_fault e 0 = Some m" for m
    using that by (simp add: register_def select_users_by_email_def send_def)
  from not_created unchanged invalid duplicate rejected show ?thesis
    by blast
qed

theorem register_duplicate_witness:
  "store (register toy_bcrypt env0 db_ann ann) = db_ann
   \<and> reply (register toy_bcrypt env0 db_ann ann) = \<lparr>status = 400, json = Msg ''User already exists''\<rparr>
   \<and> store (register toy_bcrypt env0 db_ann no_name) = db_ann
   \<and> reply (register toy_bcrypt env0 db_ann no_name) = \<lparr>status = 400, json = Msg ''All fields are required''\<rparr>"
proof -
  have has: "email ann = Some (JStr ''ann@x.com'')" "email no_name = Some (JStr ''ann@x.com'')"
    by (simp_all add: ann_def no_name_def)
  have dup: "\<exists>u \<in> set (users db_ann). u_email u = sql_text (JStr ''ann@x.com'')"
    by (simp add: db_ann_def ann_row_def)
  have whole: "\<not> falsy (name ann)" "\<not> falsy (email ann)" "\<not> falsy (password ann)" "store_fault env0 0 = None"
    by (simp_all add: ann_def env0_def)
  have lacking: "falsy (name no_name)"
    by (simp add: no_name_def)
  from register_duplicate [OF has(1) dup, of toy_bcrypt env0]
    register_duplicate [OF has(2) dup, of toy_bcrypt env0] whole lacking
  show ?thesis by simp
qed

subsection \<open>The credential failures of login\<close>

text \<open>
  Where the comparison returns false, the two failures are one: a login whose email
  no user row has, and a login whose password does not compare equal to the hash of the
  first row with its email, are both answered 401 with the same message.
\<close>

lemma login_401_twice:
  assumes ok: "store_answers e1" "store_answers e2"
    and present1: "\<not> falsy (email b1)" "\<not> falsy (password b1)"
    and present2: "\<not> falsy (email b2)" "\<not> falsy (password b2)"
    and unknown: "\<not> (\<exists>u \<in> set (users d1). u_email u = param (email b1))"
    and known: "filter (\<lambda>u. u_email u = param (email b2)) (users d2) = usr # rest"
    and wrong: "bcrypt_compare bc (password b2) (u_password usr) = Inr False"
  shows "reply (login bc e1 d1 b1) = \<lparr>status = 401, json = Msg ''Invalid email or password''\<rparr>
       \<and> reply (login bc e2 d2 b2) = reply (login bc e1 d1 b1)"
proof -
  from unknown have "filter (\<lambda>u. u_email u = param (email b1)) (users d1) = []"
    by (simp add: no_row_for_email)
  with login_checked [OF present1 store_answersD [OF ok(1)], of bc d1]
  have first: "reply (login bc e1 d1 b1) = \<lparr>status = 401, json = Msg ''Invalid email or password''\<rparr>"
    by (simp add: send_def)
  from login_checked [OF present2 store_answersD [OF ok(2)], of bc d2] known wrong
  have "reply (login bc e2 d2 b2) = \<lparr>status = 401, json = Msg ''Invalid email or password''\<rparr>"
    by (simp add: send_def)
  with first show ?thesis by simp
qed

text \<open>
  Where the password is present and not a string, the comparison is reached only if a
  row has the email, and it rejects: the catch answers 500.
\<close>

lemma login_rejected_compare:
  assumes "\<not> falsy (email b)" "\<not> falsy (password b)" "store_fault e 0 = None"
    and "\<forall>p. password b \<noteq> Some (JStr p)"
    and "filter (\<lambda>u. u_email u = param (email b)) (users d) = usr # rest"
  shows "reply (login bc e d b) = \<lparr>status = 500, json = MsgError ''Server error'' (bc_compare_error bc)\<rparr>"
proof -
  from assms(4) have "bcrypt_compare bc (password b) (u_password usr) = Inl (bc_compare_error bc)"
    by (auto simp: bcrypt_compare_def split: option.splits jsval.splits)
  with login_checked [OF assms(1-3), of bc d] assms(5) show ?thesis
    by (simp add: send_def)
qed

text \<open>
  Claim C5 says that the failure for an email that no user has and the failure for a
  password that does not verify are the same for every login request. The handler gives
  both branches the same status and message, but it passes the password to the
  comparison as received. Evaluated with the number 12345 for a password: for Bob's
  email, which no row has, the answer is 401; for Ann's email, which a row has, the
  comparison rejects and the answer is 500. The two responses differ, and tell whether
  the email is registered.
\<close>

theorem login_numeric_password_reveals_email:
  "map u_email (users db_ann) = [''ann@x.com'']
   \<and> reply (login toy_bcrypt env0 db_ann bob_12345) =
       \<lparr>status = 401, json = Msg ''Invalid email or password''\<rparr>
   \<and> reply (login toy_bcrypt env0 db_ann ann_12345) =
       \<lparr>status = 500, json = MsgError ''Server error'' (bc_compare_error toy_bcrypt)\<rparr>"
  by (simp add: login_def select_users_by_email_def bcrypt_compare_def send_def Let_def
      env0_def db_ann_def ann_row_def ann_12345_def bob_12345_def)

subsection \<open>What the console receives\<close>

text \<open>Both handlers begin by writing the request body, as received, to the console.\<close>

lemma request_body_logged:
  "LogBody ''Register request:'' (body_fields b) \<in> set (console (register bc e d b))"
  "LogBody ''Login request:'' (body_fields b) \<in> set (console (login bc e d b))"
  by (auto simp: register_def login_def send_def Let_def split: sum.splits list.splits)

lemma password_in_body_fields:
  "password b = Some p \<Longrightarrow> (''password'', p) \<in> set (body_fields b)"
  by (simp add: body_fields_def)

text \<open>
  Claim C6 says that the password as submitted is never stored or logged. The row that
  registration stores holds the bcrypt hash made with 10 rounds (\<open>register_created\<close>),
  but the first statement of the register handler, and of the login handler, writes the
  whole request body to the console. Evaluated at Ann's registration and at her login,
  the console line holds her password \<open>pw123\<close> as submitted.
\<close>

theorem request_log_has_plaintext_password:
  "console (register toy_bcrypt env0 db0 ann) =
     [LogBody ''Register request:''
        [(''name'', JStr ''Ann''), (''email'', JStr ''ann@x.com''), (''password'', JStr ''pw123'')]]
   \<and> console (login toy_bcrypt env0 db_ann ann) =
     [LogBody ''Login request:''
        [(''name'', JStr ''Ann''), (''email'', JStr ''ann@x.com''), (''password'', JStr ''pw123'')]]"
  by (simp add: register_def login_def select_users_by_email_def insert_user_def send_def
      bcrypt_hash_def bcrypt_compare_def body_fields_def Let_def
      env0_def db0_def db_ann_def ann_row_def ann_def toy_bcrypt_def)

subsection \<open>The order of the checks of login\<close>



subsection \<open>What a successful login sends back\<close>

text \<open>
  Claim C10. When login is answered 200, the body carries, next to the token, the
  first user row that the store holds for the email: the whole row as stored, so with
  its \<open>u_password\<close> field, the stored hash.
\<close>

theorem login_returns_stored_row:
  assumes success: "status (reply (login bc e d b)) = 200"
  shows "\<exists>tok usr rest.
           json (reply (login bc e d b)) = MsgTokenUser ''Login successful'' tok usr
         \<and> filter (\<lambda>u. u_email u = param (email b)) (users d) = usr # rest
         \<and> usr \<in> set (users d)"
proof -
  from login_200_D [OF success]
  obtain usr rest where present: "\<not> falsy (email b)" "\<not> falsy (password b)"
    and ok: "store_fault e 0 = None" and secret: "\<not> unset (JWT_SECRET e)"
    and row: "filter (\<lambda>u. u_email u = param (email b)) (users d) = usr # rest"
    and match: "bcrypt_compare bc (password b) (u_password usr) = Inr True"
    by blast
  from login_checked [OF present ok, of bc d] row match secret
  have "json (reply (login bc e d b)) =
      MsgTokenUser ''Login successful''
        (jwt_sign (u_id usr) (u_email usr) (secret_of (JWT_SECRET e)) (now e)) usr"
    by (simp add: send_def)
  moreover have "usr \<in> set (users d)"
  proof -
    have "usr \<in> set (filter (\<lambda>u. u_email u = param (email b)) (users d))"
      by (simp add: row)
    then show ?thesis by simp
  qed
  ultimately show ?thesis using row by blast
qed

theorem login_returns_stored_row_witness:
  "\<exists>tok. json (reply (login toy_bcrypt env0 db_ann ann)) =
     MsgTokenUser ''Login successful'' tok
       \<lparr>u_id = 1, u_name = ''Ann'', u_email = ''ann@x.com'', u_password = ''na$321wp''\<rparr>"
proof -
  have success: "status (reply (login toy_bcrypt env0 db_ann ann)) = 200"
    by (simp add: login_def select_users_by_email_def bcrypt_compare_def send_def Let_def
        env0_def db_ann_def ann_row_def ann_def toy_bcrypt_def)
  from login_returns_stored_row [OF success]
  obtain tok usr where body: "json (reply (login toy_bcrypt env0 db_ann ann)) =
      MsgTokenUser ''Login successful'' tok usr" and "usr \<in> set (users db_ann)"
    by blast
  then have "usr = \<lparr>u_id = 1, u_name = ''Ann'', u_email = ''ann@x.com'', u_password = ''na$321wp''\<rparr>"
    by (simp add: db_ann_def ann_row_def)
  with body show ?thesis by blast
qed

subsection \<open>The lifetime of a token\<close>

text \<open>
  Claim C8. Let login send a token, issued when the clock showed \<open>now e0\<close>. The token
  carries that time of issue and an expiry 3600 seconds later. Presented to the
  middleware of a process with the same signing secret, it is accepted, with the id
  and email of the user row, at every time before issue plus one hour, and rejected
  with \<open>ExpiredTokenError\<close> at every time after.
\<close>

theorem token_valid_one_hour:
  assumes issued: "json (reply (login bc e0 d b)) = MsgTokenUser m tok usr"
    and same_secret: "JWT_SECRET e = JWT_SECRET e0"
  shows "t_iat tok = now e0 \<and> t_exp tok = now e0 + 3600
       \<and> (now e < now e0 + 3600 \<longrightarrow>
            authenticate e (Some tok) = Inr \<lparr>i_id = u_id usr, i_email = u_email usr\<rparr>)
       \<and> (now e0 + 3600 < now e \<longrightarrow> authenticate e (Some tok) = Inl ExpiredTokenError)"
proof -
  from login_token_D [OF issued]
  have secret: "\<not> unset (JWT_SECRET e0)"
    and tok: "tok = jwt_sign (u_id usr) (u_email usr) (secret_of (JWT_SECRET e0)) (now e0)"
    by simp_all
  from secret have "JWT_SECRET e0 = Some (secret_of (JWT_SECRET e0))"
    by (rule unset_secret_of)
  with same_secret tok have key: "JWT_SECRET e = Some (t_key tok)"
    by (simp add: jwt_sign_def)
  from tok have times: "t_iat tok = now e0" "t_exp tok = now e0 + 3600"
    and who: "t_id tok = u_id usr" "t_email tok = u_email usr"
    by (simp_all add: jwt_sign_def)
  from key times who show ?thesis
    by (simp add: authenticate_def)
qed

theorem token_valid_one_hour_witness:
  "authenticate (env_at 4599) (Some ann_token) = Inr ann_identity
   \<and> authenticate (env_at 4601) (Some ann_token) = Inl ExpiredTokenError"
proof -
  have issued: "json (reply (login toy_bcrypt env0 db_ann ann)) =
      MsgTokenUser ''Login successful'' ann_token ann_row"
    by (simp add: login_def select_users_by_email_def bcrypt_compare_def send_def Let_def jwt_sign_def
        env0_def db_ann_def ann_row_def ann_def toy_bcrypt_def ann_token_def)
  have same: "JWT_SECRET (env_at 4599) = JWT_SECRET env0" "JWT_SECRET (env_at 4601) = JWT_SECRET env0"
    by (simp_all add: env_at_def)
  have before: "now (env_at 4599) < now env0 + 3600" and after: "now env0 + 3600 < now (env_at 4601)"
    by (simp_all add: env_at_def env0_def)
  have who: "\<lparr>i_id = u_id ann_row, i_email = u_email ann_row\<rparr> = ann_identity"
    by (simp add: ann_row_def ann_identity_def)
  from token_valid_one_hour [OF issued same(1)] token_valid_one_hour [OF issued same(2)]
    before after who
  show ?thesis by simp
qed

end
